theory Spec2Isabelle
  imports Complex_Main "HOL-Library.AList"
begin

section \<open>JavaScript values and built-ins\<close>

text \<open>
  Strings are byte strings: the UTF-8 encoding of the source's string. The source file is
  UTF-8, and \<open>encodeURIComponent\<close> works on the UTF-8 bytes of its argument.
\<close>

text \<open>
  A number: a finite value (every double is a real; the two zeros are \<open>Num 0\<close>), an
  infinity, or \<open>NaN\<close>. The port and the count of \<open>getUuids\<close> are numbers. Status codes
  and clock readings are integers, and so are the numbers inside JSON values, which the
  code only passes on.
\<close>

datatype jsnum =
    Num real
  | PosInfinity
  | NegInfinity
  | NaN

datatype jsval =
    JUndefined
  | JNull
  | JBool bool
  | JNum int
  | JStr string
  | JArr "jsval list"
  | JObj "(string \<times> jsval) list"

text \<open>An object: its own enumerable properties in insertion order, keys distinct.\<close>

type_synonym jsobject = "(string \<times> jsval) list"

text \<open>
  What the model takes from the JavaScript runtime and from the \<open>query-string\<close>
  package instead of defining it:
  \<^item> \<open>STATUS_CODES\<close>: Node's \<open>http.STATUS_CODES\<close> table;
  \<^item> \<open>gt_zero v\<close>: the comparison \<open>v > 0\<close> on a value (its number coercion is
    floating point);
  \<^item> \<open>JSON_stringify\<close>: \<open>JSON.stringify\<close>, a string or \<open>undefined\<close>;
  \<^item> \<open>stringify\<close>: \<open>querystring.stringify\<close> of the \<open>query-string\<close> package;
  \<^item> \<open>Number_toString\<close>: the string of a number, used for the numbers that are not
    integers of magnitude below \<open>2^53\<close> (there the digits depend on the double).
\<close>

record runtime =
  STATUS_CODES :: "int \<rightharpoonup> string"
  gt_zero :: "jsval \<Rightarrow> bool"
  JSON_stringify :: "jsval \<Rightarrow> jsval"
  stringify :: "jsobject \<Rightarrow> string"
  Number_toString :: "jsnum \<Rightarrow> string"

text \<open>\<open>a || b\<close> on optional strings: \<open>undefined\<close> and the empty string are falsy.\<close>

definition js_or :: "string option \<Rightarrow> string option \<Rightarrow> string option" where
  "js_or a b = (case a of None \<Rightarrow> b | Some s \<Rightarrow> if s = [] then b else Some s)"

text \<open>\<open>a || d\<close> on an optional string with a string default.\<close>

definition js_or_str :: "string option \<Rightarrow> string \<Rightarrow> string" where
  "js_or_str a d = (case a of None \<Rightarrow> d | Some s \<Rightarrow> if s = [] then d else s)"

text \<open>
  \<open>a || d\<close> on an optional number with a number default: \<open>undefined\<close>, \<open>0\<close> (and
  \<open>-0\<close>) and \<open>NaN\<close> are falsy; every other number is truthy.
\<close>

definition js_or_num :: "jsnum option \<Rightarrow> jsnum \<Rightarrow> jsnum" where
  "js_or_num a d =
     (case a of None \<Rightarrow> d | Some n \<Rightarrow> if n = Num 0 \<or> n = NaN then d else n)"

text \<open>\<open>a || d\<close> on an optional status code, an integer: \<open>undefined\<close> and \<open>0\<close> are falsy.\<close>

definition js_or_code :: "int option \<Rightarrow> int \<Rightarrow> int" where
  "js_or_code a d = (case a of None \<Rightarrow> d | Some n \<Rightarrow> if n = 0 then d else n)"

text \<open>\<open>a || false\<close> on an optional boolean.\<close>

definition js_or_bool :: "bool option \<Rightarrow> bool \<Rightarrow> bool" where
  "js_or_bool a d = (case a of None \<Rightarrow> d | Some b \<Rightarrow> if b then True else d)"

text \<open>
  Number to string, as a template literal does it. An integer of magnitude below \<open>2^53\<close>
  is printed with its decimal digits, the infinities and \<open>NaN\<close> by their names; the string
  of any other number is the runtime's.
\<close>

definition digit :: "nat \<Rightarrow> char" where
  "digit n = ''0123456789'' ! (n mod 10)"

fun digits :: "nat \<Rightarrow> string" where
  "digits n = (if n < 10 then [digit n] else digits (n div 10) @ [digit n])"

declare digits.simps [simp del]

definition num_str :: "runtime \<Rightarrow> jsnum \<Rightarrow> string" where
  "num_str rt n =
     (case n of
        Num r \<Rightarrow>
          if r \<in> \<int> \<and> \<bar>r\<bar> < 2 ^ 53
          then (if r < 0 then CHR ''-'' # digits (nat \<lfloor>- r\<rfloor>) else digits (nat \<lfloor>r\<rfloor>))
          else Number_toString rt n
      | PosInfinity \<Rightarrow> ''Infinity''
      | NegInfinity \<Rightarrow> ''-Infinity''
      | NaN \<Rightarrow> ''NaN'')"

text \<open>
  \<open>encodeURIComponent\<close>: every byte but the unreserved characters
  \<open>A-Z a-z 0-9 - _ . ! ~ * ' ( )\<close> becomes \<open>%XX\<close> with upper-case hexadecimal digits.
\<close>

definition unreserved :: "char \<Rightarrow> bool" where
  "unreserved c \<longleftrightarrow>
     c \<in> set ''ABCDEFGHIJKLMNOPQRSTUVWXYZabcdefghijklmnopqrstuvwxyz0123456789-_.!~*()''
     \<or> c = CHR 0x27"

definition hex_digit :: "nat \<Rightarrow> char" where
  "hex_digit n = ''0123456789ABCDEF'' ! (n mod 16)"

definition percent :: "char \<Rightarrow> string" where
  "percent c = [CHR ''%'', hex_digit (of_char c div 16), hex_digit (of_char c mod 16)]"

definition encodeURIComponent :: "string \<Rightarrow> string" where
  "encodeURIComponent s = concat (map (\<lambda>c. if unreserved c then [c] else percent c) s)"

text \<open>
  \<open>Object.assign({}, target, source)\<close>: the target's properties, each property of the
  source written over them in order (a new key goes to the end).
\<close>

definition Object_assign :: "('k \<times> 'v) list \<Rightarrow> ('k \<times> 'v) list \<Rightarrow> ('k \<times> 'v) list" where
  "Object_assign target source = fold (\<lambda>(k, v). AList.update k v) source target"

text \<open>The two characters of the status messages that are not ASCII, in UTF-8.\<close>

definition en_dash :: string where
  "en_dash = [CHR 0xE2, CHR 0x80, CHR 0x93]"

definition rsquo :: string where
  "rsquo = [CHR 0xE2, CHR 0x80, CHR 0x99]"

definition apostrophe :: string where
  "apostrophe = [CHR 0x27]"

section \<open>Data model\<close>

text \<open>\<open>CouchDbOptions.AuthOptions\<close>.\<close>

record auth_options =
  auth_username :: "string option"
  auth_password :: "string option"

text \<open>
  \<open>CouchDbOptions.Connection\<close>, the constructor's argument: every field is optional.
  The constructor's default argument \<open>{}\<close> is the value with every field \<open>None\<close>.
\<close>

record connection =
  opt_host :: "string option"
  opt_port :: "jsnum option"
  opt_auth :: "auth_options option"
  opt_logging :: "bool option"
  opt_defaultDatabase :: "string option"

text \<open>
  The private fields of a client. \<open>CouchDBAdmin\<close> has \<open>host\<close>, \<open>port\<close>, \<open>auth\<close> and
  \<open>logging\<close>; \<open>CouchDb\<close> has \<open>defaultDatabase\<close> as well.
\<close>

record client =
  host :: string
  port :: jsnum
  auth :: "auth_options option"
  logging :: bool

record couchdb = client +
  defaultDatabase :: "string option"

datatype http_method = GET | POST | PUT | DELETE | COPY | HEAD

text \<open>
  \<open>CouchDbOptions.RequestOptions\<close> as the methods fill it: the argument of \<open>request\<close>.
  An absent \<open>postData\<close> is \<open>JUndefined\<close>.
\<close>

record request_options =
  path :: "string option"
  "method" :: "http_method option"
  postData :: jsval
  headers :: "jsobject option"
  statusCodes :: "(int \<rightharpoonup> string) option"

text \<open>The options handed to the HTTP transport (\<open>request-promise\<close>).\<close>

record http_request =
  req_uri :: string
  req_auth :: "auth_options option"
  req_method :: http_method
  req_json :: bool
  req_headers :: jsobject
  req_resolveWithFullResponse :: bool
  req_body :: jsval

text \<open>The transport's full response, and the error object it rejects with.\<close>

record response =
  res_statusCode :: int
  res_body :: jsval

record transport_error =
  err_name :: string
  err_statusCode :: "int option"

text \<open>The object \<open>request\<close> rejects with, and the record it logs.\<close>

record normalized_error =
  error :: transport_error
  status :: int
  message :: string
  duration :: int

record log_record =
  log_statusCode :: int
  log_message :: string
  log_body :: jsval
  log_duration :: int

text \<open>
  What the transport does with one request: its promise is fulfilled with a response, or
  rejected with \<open>undefined\<close> or \<open>null\<close>, or
  rejected with an error object, or the call itself throws before returning a promise.
\<close>

datatype transport =
    Fulfils response
  | RejectsWith transport_error
  | RejectsNullish
  | ThrowsSync string

text \<open>
  A rejection reason: the normalized error object, the string of a \<open>Promise.reject\<close>,
  or a thrown value that reached the promise as it was.
\<close>

datatype rejection =
    Normalized normalized_error
  | Message string
  | Thrown string

text \<open>
  The observable events of one call, in order: the request handed to the transport, a
  record written to the console, and the calls of the returned promise's \<open>resolve\<close> and
  \<open>reject\<close>.
\<close>

datatype event =
    Dispatch http_request
  | Log log_record
  | Resolve jsval
  | Reject rejection

datatype js_error = TypeError

text \<open>
  What a method does before it returns: it throws, or returns \<open>Promise.reject(msg)\<close>, or
  returns \<open>this.request(options)\<close>, or returns the existence check's promise around
  \<open>this.request(options)\<close>.
\<close>

datatype call =
    Throw js_error
  | PromiseReject string
  | Request request_options
  | Exists request_options

section \<open>The request gateway\<close>

text \<open>The constructors.\<close>

definition CouchDb :: "connection \<Rightarrow> couchdb" where
  "CouchDb options =
     \<lparr>host = js_or_str (opt_host options) ''http://127.0.0.1'',
      port = js_or_num (opt_port options) (Num 5984),
      auth = opt_auth options,
      logging = js_or_bool (opt_logging options) False,
      defaultDatabase = opt_defaultDatabase options\<rparr>"

text \<open>
  \<open>CouchDBAdmin\<close>'s constructor has \<open>this.port = options.port = 5984\<close>: an assignment to
  the argument, whose value is 5984. The result is the client and the argument after it.
\<close>

definition CouchDBAdmin :: "connection \<Rightarrow> client \<times> connection" where
  "CouchDBAdmin options =
     (let options' = options\<lparr>opt_port := Some (Num 5984)\<rparr> in
      (\<lparr>host = js_or_str (opt_host options) ''http://127.0.0.1'',
        port = Num 5984,
        auth = opt_auth options',
        logging = js_or_bool (opt_logging options') False\<rparr>,
       options'))"

text \<open>
  The earlier \<open>CouchDBAdmin\<close> (with \<open>getOptions\<close>, \<open>getInfo\<close> and \<open>listDatabases\<close> only):
  the same assignment, and no \<open>logging\<close> field; its \<open>logging\<close> is \<open>False\<close> here.
\<close>

definition CouchDBAdmin_first :: "connection \<Rightarrow> client \<times> connection" where
  "CouchDBAdmin_first options =
     (let options' = options\<lparr>opt_port := Some (Num 5984)\<rparr> in
      (\<lparr>host = js_or_str (opt_host options) ''http://127.0.0.1'',
        port = Num 5984,
        auth = opt_auth options',
        logging = False\<rparr>,
       options'))"

text \<open>
  Its \<open>getOptions(path = '')\<close>: the target is the host, the port, a slash and the path, the
  empty string when the path is absent.
\<close>

definition getOptions_uri :: "runtime \<Rightarrow> client \<Rightarrow> string option \<Rightarrow> string" where
  "getOptions_uri rt this p =
     host this @ '':'' @ num_str rt (port this) @ ''/'' @
     (case p of None \<Rightarrow> [] | Some s \<Rightarrow> s)"

text \<open>
  \<open>createQueryString\<close> of \<open>CouchDb\<close>: \<open>Object.keys\<close> of \<open>undefined\<close> throws a
  \<open>TypeError\<close>.
\<close>

definition createQueryString :: "runtime \<Rightarrow> jsobject option \<Rightarrow> js_error + string" where
  "createQueryString rt queryObj =
     (case queryObj of
        None \<Rightarrow> Inl TypeError
      | Some obj \<Rightarrow> Inr (if map fst obj \<noteq> [] then ''?'' @ stringify rt obj else []))"

text \<open>
  \<open>createQueryString\<close> of \<open>CouchDBAdmin\<close>: a copy of the argument (\<open>Object.assign\<close> skips
  \<open>undefined\<close>), in which each of the four keys that is present gets the JSON text of its
  value.
\<close>

definition QUERY_KEYS_JSON :: "string list" where
  "QUERY_KEYS_JSON = [''key'', ''keys'', ''startkey'', ''endkey'']"

definition CouchDBAdmin_createQueryString :: "runtime \<Rightarrow> jsobject option \<Rightarrow> string" where
  "CouchDBAdmin_createQueryString rt queryObj =
     (let obj = Object_assign [] (case queryObj of None \<Rightarrow> [] | Some q \<Rightarrow> q);
          obj = fold (\<lambda>key obj.
                   case map_of obj key of
                     Some v \<Rightarrow> AList.update key (JSON_stringify rt v) obj
                   | None \<Rightarrow> obj) QUERY_KEYS_JSON obj
      in if map fst obj \<noteq> [] then ''?'' @ stringify rt obj else [])"

text \<open>\<open>defaultRequestOptions\<close>; the body is not set yet.\<close>

definition defaultRequestOptions :: "runtime \<Rightarrow> 'a client_scheme \<Rightarrow> http_request" where
  "defaultRequestOptions rt this =
     \<lparr>req_uri = host this @ '':'' @ num_str rt (port this),
      req_auth = auth this,
      req_method = GET,
      req_json = True,
      req_headers = [(''user-agent'', JStr ''couchdb-promises''),
                     (''accept'', JStr ''application/json'')],
      req_resolveWithFullResponse = True,
      req_body = JUndefined\<rparr>"

text \<open>
  The first lines of \<open>request\<close>, the same text in \<open>CouchDb\<close> and \<open>CouchDBAdmin\<close>: the
  options of the transport call. The template literal prints an absent path as
  \<open>undefined\<close>. The headers are merged when \<open>options.headers.length > 0\<close>: \<open>length\<close> is
  read as a property of the headers object, and \<open>undefined > 0\<close> is false.
\<close>

definition requestOptions :: "runtime \<Rightarrow> 'a client_scheme \<Rightarrow> request_options \<Rightarrow> http_request" where
  "requestOptions rt this options =
     (let requestOptions = defaultRequestOptions rt this;
          requestOptions = requestOptions
            \<lparr>req_method := (case method options of
                              Some m \<Rightarrow> m | None \<Rightarrow> req_method requestOptions)\<rparr>;
          requestOptions = requestOptions
            \<lparr>req_uri := req_uri requestOptions @ ''/'' @
                           (case path options of Some p \<Rightarrow> p | None \<Rightarrow> ''undefined'')\<rparr>;
          requestOptions = requestOptions\<lparr>req_body := postData options\<rparr>
      in case headers options of
           None \<Rightarrow> requestOptions
         | Some hs \<Rightarrow>
             (case map_of hs ''length'' of
                None \<Rightarrow> requestOptions
              | Some len \<Rightarrow>
                  if gt_zero rt len
                  then requestOptions
                         \<lparr>req_headers := Object_assign (req_headers requestOptions) hs\<rparr>
                  else requestOptions))"

text \<open>
  \<open>statusCode\<close>: the built-in table with the call's table written over it, then
  \<open>codes[status] || 'unknown status'\<close>; the empty string is falsy. The tables' keys are
  status codes, so an \<open>undefined\<close> status finds nothing.
\<close>

definition statusCode :: "(int \<rightharpoonup> string) \<Rightarrow> (int \<rightharpoonup> string) option \<Rightarrow> int option \<Rightarrow> string" where
  "statusCode builtin statusCodes' status' =
     (let codes = (case statusCodes' of None \<Rightarrow> builtin | Some t \<Rightarrow> builtin ++ t) in
      case status' of
        None \<Rightarrow> ''unknown status''
      | Some s \<Rightarrow>
          (case codes s of
             None \<Rightarrow> ''unknown status''
           | Some m \<Rightarrow> if m = [] then ''unknown status'' else m))"

text \<open>
  \<open>request\<close>, given the two readings of the clock and what the transport does. The
  executor of \<open>new Promise\<close> calls the transport; when that call throws, the promise is
  rejected with the thrown value. Otherwise \<open>then\<close> logs (when logging is on) and resolves
  with the body, and \<open>catch\<close> rejects with the normalized error. The \<open>catch\<close> handler
  reads \<open>error.statusCode\<close> first: when the reason is \<open>undefined\<close> or \<open>null\<close> that read
  throws inside the handler, and neither \<open>resolve\<close> nor \<open>reject\<close> is ever called.
\<close>

definition request :: "runtime \<Rightarrow> 'a client_scheme \<Rightarrow> request_options \<Rightarrow> int \<Rightarrow> transport \<Rightarrow> int \<Rightarrow> event list" where
  "request rt this options startTime tr now =
     Dispatch (requestOptions rt this options) #
     (case tr of
        ThrowsSync x \<Rightarrow> [Reject (Thrown x)]
      | RejectsNullish \<Rightarrow> []
      | Fulfils response \<Rightarrow>
          (if logging this
           then [Log \<lparr>log_statusCode = res_statusCode response,
                      log_message = statusCode (STATUS_CODES rt) (statusCodes options)
                                      (Some (res_statusCode response)),
                      log_body = res_body response,
                      log_duration = now - startTime\<rparr>]
           else []) @
          [Resolve (res_body response)]
      | RejectsWith e \<Rightarrow>
          [Reject (Normalized
             \<lparr>error = e,
              status = js_or_code (err_statusCode e) 500,
              message = statusCode (STATUS_CODES rt) (statusCodes options) (err_statusCode e),
              duration = now - startTime\<rparr>)])"

text \<open>
  The handlers of the existence checks, applied to what \<open>request\<close> did:
  \<open>then\<close> resolves with \<open>true\<close>; \<open>catch\<close> resolves with \<open>false\<close> when
  \<open>error.error.statusCode === 404\<close> and rejects with the same error otherwise. A thrown
  value or a string has no \<open>error\<close> property.
\<close>

fun exists_handler :: "event \<Rightarrow> event" where
  "exists_handler (Resolve b) = Resolve (JBool True)"
| "exists_handler (Reject (Normalized e)) =
     (if err_statusCode (error e) = Some 404 then Resolve (JBool False)
      else Reject (Normalized e))"
| "exists_handler ev = ev"

text \<open>The events of a call that returned a promise; a call that threw returns none.\<close>

definition perform :: "runtime \<Rightarrow> 'a client_scheme \<Rightarrow> int \<Rightarrow> transport \<Rightarrow> int \<Rightarrow> call \<Rightarrow> js_error + event list" where
  "perform rt this startTime tr now c =
     (case c of
        Throw e \<Rightarrow> Inl e
      | PromiseReject msg \<Rightarrow> Inr [Reject (Message msg)]
      | Request options \<Rightarrow> Inr (request rt this options startTime tr now)
      | Exists options \<Rightarrow> Inr (map exists_handler (request rt this options startTime tr now)))"

text \<open>The calls of \<open>resolve\<close> and \<open>reject\<close> among the events, and the transport calls.\<close>

fun is_settle :: "event \<Rightarrow> bool" where
  "is_settle (Resolve b) = True"
| "is_settle (Reject r) = True"
| "is_settle ev = False"

fun is_dispatch :: "event \<Rightarrow> bool" where
  "is_dispatch (Dispatch r) = True"
| "is_dispatch ev = False"

definition settlements :: "event list \<Rightarrow> event list" where
  "settlements es = filter is_settle es"

definition dispatches :: "event list \<Rightarrow> event list" where
  "dispatches es = filter is_dispatch es"

section \<open>The methods of \<open>CouchDb\<close>\<close>

text \<open>
  Every method with a database name starts with
  \<open>dbName = dbName || this.defaultDatabase; if (!dbName) return Promise.reject(...)\<close>.
\<close>

definition no_db :: string where
  "no_db = ''No DB specified. Set defaultDatabase or specify one''"

definition with_db :: "couchdb \<Rightarrow> string option \<Rightarrow> (string \<Rightarrow> call) \<Rightarrow> call" where
  "with_db this dbName k =
     (case js_or dbName (defaultDatabase this) of
        None \<Rightarrow> PromiseReject no_db
      | Some dbName \<Rightarrow> if dbName = [] then PromiseReject no_db else k dbName)"

text \<open>
  \<open>dbName.match('^[a-z][a-z0-9_$()+/-]*$')\<close>: a lower-case letter, then only characters
  of the class, up to the end of the string.
\<close>

definition lower_case :: "char \<Rightarrow> bool" where
  "lower_case c \<longleftrightarrow> c \<in> set ''abcdefghijklmnopqrstuvwxyz''"

definition name_char :: "char \<Rightarrow> bool" where
  "name_char c \<longleftrightarrow> c \<in> set ''abcdefghijklmnopqrstuvwxyz0123456789_$()+/-''"

fun db_name_match :: "string \<Rightarrow> bool" where
  "db_name_match [] = False"
| "db_name_match (c # cs) = (lower_case c \<and> list_all name_char cs)"

definition invalid_db :: string where
  "invalid_db = ''Invalid DB Name: http://docs.couchdb.org/en/latest/api/database/common.html#put--db''"

definition getInfo :: call where
  "getInfo =
     Request \<lparr>path = None, method = None, postData = JUndefined, headers = None,
       statusCodes = Some
        [200 \<mapsto> ''OK - Request completed successfully'']\<rparr>"

definition getDatabases :: call where
  "getDatabases =
     Request \<lparr>path = Some ''_all_dbs'', method = None, postData = JUndefined, headers = None,
       statusCodes = Some
        [200 \<mapsto> ''OK - Request completed successfully'',
         401 \<mapsto> ''Unauthorized - CouchDB Server Administrator privileges required'']\<rparr>"

definition getDatabase :: "couchdb \<Rightarrow> string option \<Rightarrow> call" where
  "getDatabase this dbName = with_db this dbName (\<lambda>dbName.
     Request \<lparr>path = Some (encodeURIComponent dbName), method = None,
       postData = JUndefined, headers = None,
       statusCodes = Some
        [200 \<mapsto> ''OK - Request completed successfully'',
         401 \<mapsto> ''Unauthorized - CouchDB Server Administrator privileges required'',
         404 \<mapsto> ''Not Found '' @ en_dash @ '' Requested database not found'']\<rparr>)"

definition createDatabase :: "couchdb \<Rightarrow> string option \<Rightarrow> call" where
  "createDatabase this dbName = with_db this dbName (\<lambda>dbName.
     if \<not> db_name_match dbName then PromiseReject invalid_db
     else
     Request \<lparr>path = Some (encodeURIComponent dbName), method = Some PUT,
       postData = JUndefined, headers = None,
       statusCodes = Some
        [201 \<mapsto> ''Created - Database created successfully'',
         400 \<mapsto> ''Bad Request - Invalid database name'',
         401 \<mapsto> ''Unauthorized - CouchDB Server Administrator privileges required'',
         412 \<mapsto> ''Precondition Failed - Database already exists'']\<rparr>)"

definition checkDatabaseExists :: "couchdb \<Rightarrow> string option \<Rightarrow> call" where
  "checkDatabaseExists this dbName = with_db this dbName (\<lambda>dbName.
     Exists \<lparr>path = Some (encodeURIComponent dbName), method = Some HEAD,
       postData = JUndefined, headers = None,
       statusCodes = Some
        [200 \<mapsto> ''OK - Database exists'',
         401 \<mapsto> ''Unauthorized - CouchDB Server Administrator privileges required'',
         404 \<mapsto> ''Not Found '' @ en_dash @ '' Requested database not found'']\<rparr>)"

definition deleteDatabase :: "couchdb \<Rightarrow> string option \<Rightarrow> call" where
  "deleteDatabase this dbName = with_db this dbName (\<lambda>dbName.
     Request \<lparr>path = Some (encodeURIComponent dbName), method = Some DELETE,
       postData = JUndefined, headers = None,
       statusCodes = Some
        [200 \<mapsto> ''OK - Database removed successfully'',
         400 \<mapsto> ''Bad Request - Invalid database name or forgotten document id by accident'',
         401 \<mapsto> ''Unauthorized - CouchDB Server Administrator privileges required'',
         404 \<mapsto> ''Not Found - Database doesn'' @ rsquo @ ''t exist'']\<rparr>)"

definition updateDatabaseSecurity :: "couchdb \<Rightarrow> string option \<Rightarrow> jsval \<Rightarrow> jsval \<Rightarrow> call" where
  "updateDatabaseSecurity this dbName admins members = with_db this dbName (\<lambda>dbName.
     Request \<lparr>path = Some (encodeURIComponent dbName @ ''/_security''), method = Some PUT,
       postData = JObj [(''admins'', admins), (''members'', members)], headers = None,
       statusCodes = Some
        [200 \<mapsto> ''OK - Security updated'',
         401 \<mapsto> ''Unauthorized - CouchDB Server Administrator privileges required'']\<rparr>)"

text \<open>\<open>[...options.roles]\<close> throws a \<open>TypeError\<close> when \<open>roles\<close> is absent.\<close>

definition createUser :: "string \<Rightarrow> string \<Rightarrow> jsval list option \<Rightarrow> call" where
  "createUser user pass roles =
     (case roles of
        None \<Rightarrow> Throw TypeError
      | Some roles \<Rightarrow>
     Request \<lparr>path = Some ''_users'', method = Some POST,
       postData = JObj [(''_id'', JStr (''org.couchdb.user:'' @ user)),
                        (''name'', JStr user),
                        (''type'', JStr ''user''),
                        (''roles'', JArr roles),
                        (''password'', JStr pass)],
       headers = None,
       statusCodes = Some
        [201 \<mapsto> ''Created New User'',
         400 \<mapsto> ''Bad Request - Invalid request'',
         401 \<mapsto> ''Unauthorized - CouchDB Server Administrator privileges required'',
         500 \<mapsto> ''Internal Server Error - Query execution error'']\<rparr>)"

definition findDocuments :: "couchdb \<Rightarrow> string option \<Rightarrow> jsval \<Rightarrow> call" where
  "findDocuments this dbName findOptions = with_db this dbName (\<lambda>dbName.
     Request \<lparr>path = Some (encodeURIComponent dbName @ ''/_find''), method = Some POST,
       postData = findOptions, headers = None,
       statusCodes = Some
        [200 \<mapsto> ''OK - Request completed successfully'',
         400 \<mapsto> ''Bad Request - Invalid request'',
         401 \<mapsto> ''Unauthorized - Read permission required'',
         500 \<mapsto> ''Internal Server Error - Query execution error'']\<rparr>)"

definition getDocuments :: "runtime \<Rightarrow> couchdb \<Rightarrow> string option \<Rightarrow> jsobject option \<Rightarrow> call" where
  "getDocuments rt this dbName options = with_db this dbName (\<lambda>dbName.
     case createQueryString rt options of
       Inl e \<Rightarrow> Throw e
     | Inr queryStr \<Rightarrow>
     Request \<lparr>path = Some (encodeURIComponent dbName @ ''/_all_docs'' @ queryStr),
       method = None, postData = JUndefined, headers = None,
       statusCodes = Some
        [200 \<mapsto> ''OK - Request completed successfully'',
         401 \<mapsto> ''Unauthorized - Read privilege required'']\<rparr>)"

definition getDocument :: "runtime \<Rightarrow> couchdb \<Rightarrow> string \<Rightarrow> string option \<Rightarrow> jsobject option \<Rightarrow> call" where
  "getDocument rt this docId dbName options = with_db this dbName (\<lambda>dbName.
     case createQueryString rt options of
       Inl e \<Rightarrow> Throw e
     | Inr queryStr \<Rightarrow>
     Request \<lparr>path = Some (encodeURIComponent dbName @ ''/'' @ encodeURIComponent docId @ queryStr),
       method = None, postData = JUndefined, headers = None,
       statusCodes = Some
        [200 \<mapsto> ''OK - Request completed successfully'',
         304 \<mapsto> ''Not Modified - Document wasn'' @ rsquo @ ''t modified since specified revision'',
         400 \<mapsto> ''Bad Request - The format of the request or revision was invalid'',
         401 \<mapsto> ''Unauthorized - Read privilege required'',
         404 \<mapsto> ''Not Found - Document not found'']\<rparr>)"

definition checkDocumentExists :: "couchdb \<Rightarrow> string option \<Rightarrow> string \<Rightarrow> call" where
  "checkDocumentExists this dbName docId = with_db this dbName (\<lambda>dbName.
     Exists \<lparr>path = Some (encodeURIComponent dbName @ ''/'' @ encodeURIComponent docId),
       method = Some HEAD, postData = JUndefined, headers = None,
       statusCodes = Some
        [200 \<mapsto> ''OK - Document exists'',
         304 \<mapsto> ''Not Modified - Document wasn'' @ rsquo @ ''t modified since specified revision'',
         401 \<mapsto> ''Unauthorized - Read privilege required'',
         404 \<mapsto> ''Not Found - Document not found'']\<rparr>)"

definition copyDocument :: "couchdb \<Rightarrow> string \<Rightarrow> string \<Rightarrow> string option \<Rightarrow> call" where
  "copyDocument this docId newDocId dbName = with_db this dbName (\<lambda>dbName.
     if docId \<noteq> [] \<and> newDocId \<noteq> [] then
     Request \<lparr>path = Some (encodeURIComponent dbName @ ''/'' @ encodeURIComponent docId),
       method = Some COPY, postData = JUndefined,
       headers = Some [(''Destination'', JStr newDocId)],
       statusCodes = Some
        [201 \<mapsto> ''Created '' @ en_dash @ '' Document created and stored on disk'',
         202 \<mapsto> ''Accepted '' @ en_dash @ '' Document data accepted, but not yet stored on disk'',
         400 \<mapsto> ''Bad Request '' @ en_dash @ '' Invalid request body or parameters'',
         401 \<mapsto> ''Unauthorized '' @ en_dash @ '' Write privileges required'',
         404 \<mapsto> ''Not Found '' @ en_dash @ '' Specified database or document ID doesn'' @ rsquo @ ''t exists'',
         409 \<mapsto> ''Conflict '' @ en_dash @ '' Document with the specified ID already exists or specified revision is not latest for target document'']\<rparr>
     else PromiseReject ''Invalid docId or newDocId'')"

text \<open>\<open>if (options.docId)\<close>: an absent or empty document id is falsy.\<close>

definition createDocument :: "couchdb \<Rightarrow> jsval \<Rightarrow> string option \<Rightarrow> string option \<Rightarrow> call" where
  "createDocument this doc docId dbName = with_db this dbName (\<lambda>dbName.
     case js_or docId None of
       Some docId \<Rightarrow>
     Request \<lparr>path = Some (encodeURIComponent dbName @ ''/'' @ encodeURIComponent docId),
       method = Some PUT, postData = doc,
       headers = Some [(''content-type'', JStr ''application/json'')],
       statusCodes = Some
        [201 \<mapsto> ''Created '' @ en_dash @ '' Document created and stored on disk'',
         202 \<mapsto> ''Accepted '' @ en_dash @ '' Document data accepted, but not yet stored on disk'',
         400 \<mapsto> ''Bad Request '' @ en_dash @ '' Invalid request body or parameters'',
         401 \<mapsto> ''Unauthorized '' @ en_dash @ '' Write privileges required'',
         404 \<mapsto> ''Not Found '' @ en_dash @ '' Specified database or document ID doesn'' @ rsquo @ ''t exists'',
         409 \<mapsto> ''Conflict '' @ en_dash @ '' Document with the specified ID already exists or specified revision is not latest for target document'']\<rparr>
     | None \<Rightarrow>
     Request \<lparr>path = Some (encodeURIComponent dbName), method = Some POST,
       postData = doc, headers = None,
       statusCodes = Some
        [201 \<mapsto> ''Created '' @ en_dash @ '' Document created and stored on disk'',
         202 \<mapsto> ''Accepted '' @ en_dash @ '' Document data accepted, but not yet stored on disk'',
         400 \<mapsto> ''Bad Request '' @ en_dash @ '' Invalid database name'',
         401 \<mapsto> ''Unauthorized '' @ en_dash @ '' Write privileges required'',
         404 \<mapsto> ''Not Found '' @ en_dash @ '' Database doesn'' @ rsquo @ ''t exists'',
         409 \<mapsto> ''Conflict '' @ en_dash @ '' A Conflicting Document with same ID already exists'']\<rparr>)"

definition createDocuments :: "couchdb \<Rightarrow> jsval list \<Rightarrow> string option \<Rightarrow> call" where
  "createDocuments this docs dbName = with_db this dbName (\<lambda>dbName.
     Request \<lparr>path = Some (encodeURIComponent dbName @ ''/_bulk_docs''), method = Some POST,
       postData = JObj [(''docs'', JArr docs)], headers = None,
       statusCodes = Some
        [201 \<mapsto> ''Created '' @ en_dash @ '' Document(s) have been created or updated'',
         400 \<mapsto> ''Bad Request '' @ en_dash @ '' The request provided invalid JSON data'',
         417 \<mapsto> ''Expectation Failed '' @ en_dash @ '' Occurs when all_or_nothing option set as true and at least one document was rejected by validation function'',
         500 \<mapsto> ''Internal Server Error '' @ en_dash @ '' Malformed data provided, while it'' @ rsquo @ ''s still valid JSON'']\<rparr>)"

definition deleteDocument :: "couchdb \<Rightarrow> string option \<Rightarrow> string \<Rightarrow> string \<Rightarrow> call" where
  "deleteDocument this dbName docId revision = with_db this dbName (\<lambda>dbName.
     Request \<lparr>path = Some (encodeURIComponent dbName @ ''/'' @ encodeURIComponent docId @
                         ''?rev='' @ revision),
       method = Some DELETE, postData = JUndefined, headers = None,
       statusCodes = Some
        [200 \<mapsto> ''OK - Document successfully removed'',
         202 \<mapsto> ''Accepted - Request was accepted, but changes are not yet stored on disk'',
         400 \<mapsto> ''Bad Request - Invalid request body or parameters'',
         401 \<mapsto> ''Unauthorized - Write privilege required'',
         404 \<mapsto> ''Not Found - Specified database or document ID doesn'' @ apostrophe @ ''t exist'',
         409 \<mapsto> ''Conflict - Specified revision is not the latest for target document'']\<rparr>)"

text \<open>\<open>getUuids(count = 1)\<close>: the default stands for an absent argument.\<close>

definition getUuids :: "runtime \<Rightarrow> jsnum option \<Rightarrow> call" where
  "getUuids rt n =
     Request \<lparr>path = Some (''_uuids?count='' @
                         num_str rt (case n of None \<Rightarrow> Num 1 | Some c \<Rightarrow> c)),
       method = None, postData = JUndefined, headers = None,
       statusCodes = Some
        [200 \<mapsto> ''OK - Request completed successfully'',
         403 \<mapsto> ''Forbidden '' @ en_dash @ '' Requested more UUIDs than is allowed to retrieve'']\<rparr>"

definition getDesignDocument :: "runtime \<Rightarrow> couchdb \<Rightarrow> string option \<Rightarrow> string \<Rightarrow> jsobject option \<Rightarrow> call" where
  "getDesignDocument rt this dbName docId options = with_db this dbName (\<lambda>dbName.
     case createQueryString rt options of
       Inl e \<Rightarrow> Throw e
     | Inr queryStr \<Rightarrow>
     Request \<lparr>path = Some (encodeURIComponent dbName @ ''/_design/'' @
                         encodeURIComponent docId @ queryStr),
       method = None, postData = JUndefined, headers = None,
       statusCodes = Some
        [200 \<mapsto> ''OK - Request completed successfully'',
         304 \<mapsto> ''Not Modified - Document wasn'' @ rsquo @ ''t modified since specified revision'',
         400 \<mapsto> ''Bad Request - The format of the request or revision was invalid'',
         401 \<mapsto> ''Unauthorized - Read privilege required'',
         404 \<mapsto> ''Not Found - Document not found'']\<rparr>)"

definition getDesignDocumentInfo :: "couchdb \<Rightarrow> string option \<Rightarrow> string \<Rightarrow> call" where
  "getDesignDocumentInfo this dbName docId = with_db this dbName (\<lambda>dbName.
     Request \<lparr>path = Some (encodeURIComponent dbName @ ''/_design/'' @
                         encodeURIComponent docId @ ''/_info''),
       method = None, postData = JUndefined, headers = None,
       statusCodes = Some
        [200 \<mapsto> ''OK - Request completed successfully'']\<rparr>)"

definition createDesignDocument :: "couchdb \<Rightarrow> string option \<Rightarrow> jsval \<Rightarrow> string \<Rightarrow> call" where
  "createDesignDocument this dbName doc docId = with_db this dbName (\<lambda>dbName.
     Request \<lparr>path = Some (encodeURIComponent dbName @ ''/_design/'' @ encodeURIComponent docId),
       method = Some PUT, postData = doc, headers = None,
       statusCodes = Some
        [201 \<mapsto> ''Created '' @ en_dash @ '' Document created and stored on disk'',
         202 \<mapsto> ''Accepted '' @ en_dash @ '' Document data accepted, but not yet stored on disk'',
         400 \<mapsto> ''Bad Request '' @ en_dash @ '' Invalid request body or parameters'',
         401 \<mapsto> ''Unauthorized '' @ en_dash @ '' Write privileges required'',
         404 \<mapsto> ''Not Found '' @ en_dash @ '' Specified database or document ID doesn'' @ rsquo @ ''t exists'',
         409 \<mapsto> ''Conflict '' @ en_dash @ '' Document with the specified ID already exists or specified revision is not latest for target document'']\<rparr>)"

definition deleteDesignDocument :: "couchdb \<Rightarrow> string option \<Rightarrow> string \<Rightarrow> string \<Rightarrow> call" where
  "deleteDesignDocument this dbName docId revision = with_db this dbName (\<lambda>dbName.
     Request \<lparr>path = Some (encodeURIComponent dbName @ ''/_design/'' @
                         encodeURIComponent docId @ ''?rev='' @ revision),
       method = Some DELETE, postData = JUndefined, headers = None,
       statusCodes = Some
        [200 \<mapsto> ''OK - Document successfully removed'',
         202 \<mapsto> ''Accepted - Request was accepted, but changes are not yet stored on disk'',
         400 \<mapsto> ''Bad Request - Invalid request body or parameters'',
         401 \<mapsto> ''Unauthorized - Write privilege required'',
         404 \<mapsto> ''Not Found - Specified database or document ID doesn'' @ apostrophe @ ''t exist'',
         409 \<mapsto> ''Conflict - Specified revision is not the latest for target document'']\<rparr>)"

definition getDocumentView :: "runtime \<Rightarrow> couchdb \<Rightarrow> string option \<Rightarrow> string \<Rightarrow> string \<Rightarrow> jsobject option \<Rightarrow> call" where
  "getDocumentView rt this dbName docId viewName options = with_db this dbName (\<lambda>dbName.
     case createQueryString rt options of
       Inl e \<Rightarrow> Throw e
     | Inr queryStr \<Rightarrow>
     Request \<lparr>path = Some (encodeURIComponent dbName @ ''/_design/'' @
                         encodeURIComponent docId @ ''/_view/'' @
                         encodeURIComponent viewName @ queryStr),
       method = None, postData = JUndefined, headers = None,
       statusCodes = Some
        [200 \<mapsto> ''OK - Request completed successfully'']\<rparr>)"

definition getIndexes :: "couchdb \<Rightarrow> string option \<Rightarrow> call" where
  "getIndexes this dbName = with_db this dbName (\<lambda>dbName.
     Request \<lparr>path = Some (encodeURIComponent dbName @ ''/_index''), method = Some GET,
       postData = JUndefined, headers = None,
       statusCodes = Some
        [200 \<mapsto> ''OK - Success'',
         400 \<mapsto> ''Bad Request - Invalid request'',
         401 \<mapsto> ''Unauthorized - Read permission required'',
         500 \<mapsto> ''Internal Server Error - Execution error'']\<rparr>)"

definition createIndex :: "couchdb \<Rightarrow> string option \<Rightarrow> jsval \<Rightarrow> string option \<Rightarrow> call" where
  "createIndex this dbName idx name = with_db this dbName (\<lambda>dbName.
     Request \<lparr>path = Some (encodeURIComponent dbName @ ''/_index''), method = Some POST,
       postData = JObj [(''index'', idx),
                        (''name'', case name of None \<Rightarrow> JUndefined | Some n \<Rightarrow> JStr n)],
       headers = None,
       statusCodes = Some
        [200 \<mapsto> ''OK - Index created successfully or already exists'',
         400 \<mapsto> ''Bad Request - Invalid request'',
         401 \<mapsto> ''Unauthorized - Admin permission required'',
         500 \<mapsto> ''Internal Server Error - Execution error'']\<rparr>)"

definition deleteIndex :: "couchdb \<Rightarrow> string option \<Rightarrow> string \<Rightarrow> string \<Rightarrow> call" where
  "deleteIndex this dbName docId indexName = with_db this dbName (\<lambda>dbName.
     Request \<lparr>path = Some (encodeURIComponent dbName @ ''/_index/'' @
                         encodeURIComponent docId @ ''/json/'' @
                         encodeURIComponent indexName),
       method = Some DELETE, postData = JUndefined, headers = None,
       statusCodes = Some
        [200 \<mapsto> ''OK - Success'',
         400 \<mapsto> ''Bad Request - Invalid request'',
         401 \<mapsto> ''Unauthorized - Writer permission required'',
         404 \<mapsto> ''Not Found - Index not found'',
         500 \<mapsto> ''Internal Server Error - Execution error'']\<rparr>)"

text \<open>\<open>createDatabase\<close> of \<open>CouchDBAdmin\<close>: the name is a required string.\<close>

definition CouchDBAdmin_createDatabase :: "string \<Rightarrow> call" where
  "CouchDBAdmin_createDatabase dbName =
     (if \<not> db_name_match dbName then PromiseReject invalid_db
      else
      Request \<lparr>path = Some (encodeURIComponent dbName), method = Some PUT,
        postData = JUndefined, headers = None,
        statusCodes = Some
         [201 \<mapsto> ''Created - Database created successfully'',
          400 \<mapsto> ''Bad Request - Invalid database name'',
          401 \<mapsto> ''Unauthorized - CouchDB Server Administrator privileges required'',
          412 \<mapsto> ''Precondition Failed - Database already exists'']\<rparr>)"

text \<open>The public methods of \<open>CouchDb\<close> with their arguments, and a call of one.\<close>

datatype operation =
    GetInfo
  | GetDatabases
  | GetDatabase "string option"
  | CreateDatabase "string option"
  | CheckDatabaseExists "string option"
  | DeleteDatabase "string option"
  | UpdateDatabaseSecurity "string option" jsval jsval
  | CreateUser string string "jsval list option"
  | FindDocuments "string option" jsval
  | GetDocuments "string option" "jsobject option"
  | GetDocument string "string option" "jsobject option"
  | CheckDocumentExists "string option" string
  | CopyDocument string string "string option"
  | CreateDocument jsval "string option" "string option"
  | CreateDocuments "jsval list" "string option"
  | DeleteDocument "string option" string string
  | GetUuids "jsnum option"
  | GetDesignDocument "string option" string "jsobject option"
  | GetDesignDocumentInfo "string option" string
  | CreateDesignDocument "string option" jsval string
  | DeleteDesignDocument "string option" string string
  | GetDocumentView "string option" string string "jsobject option"
  | GetIndexes "string option"
  | CreateIndex "string option" jsval "string option"
  | DeleteIndex "string option" string string

fun invoke :: "runtime \<Rightarrow> couchdb \<Rightarrow> operation \<Rightarrow> call" where
  "invoke rt this GetInfo = getInfo"
| "invoke rt this GetDatabases = getDatabases"
| "invoke rt this (GetDatabase dbName) = getDatabase this dbName"
| "invoke rt this (CreateDatabase dbName) = createDatabase this dbName"
| "invoke rt this (CheckDatabaseExists dbName) = checkDatabaseExists this dbName"
| "invoke rt this (DeleteDatabase dbName) = deleteDatabase this dbName"
| "invoke rt this (UpdateDatabaseSecurity dbName admins members) =
     updateDatabaseSecurity this dbName admins members"
| "invoke rt this (CreateUser user pass roles) = createUser user pass roles"
| "invoke rt this (FindDocuments dbName findOptions) = findDocuments this dbName findOptions"
| "invoke rt this (GetDocuments dbName options) = getDocuments rt this dbName options"
| "invoke rt this (GetDocument docId dbName options) = getDocument rt this docId dbName options"
| "invoke rt this (CheckDocumentExists dbName docId) = checkDocumentExists this dbName docId"
| "invoke rt this (CopyDocument docId newDocId dbName) = copyDocument this docId newDocId dbName"
| "invoke rt this (CreateDocument doc docId dbName) = createDocument this doc docId dbName"
| "invoke rt this (CreateDocuments docs dbName) = createDocuments this docs dbName"
| "invoke rt this (DeleteDocument dbName docId revision) =
     deleteDocument this dbName docId revision"
| "invoke rt this (GetUuids n) = getUuids rt n"
| "invoke rt this (GetDesignDocument dbName docId options) =
     getDesignDocument rt this dbName docId options"
| "invoke rt this (GetDesignDocumentInfo dbName docId) = getDesignDocumentInfo this dbName docId"
| "invoke rt this (CreateDesignDocument dbName doc docId) =
     createDesignDocument this dbName doc docId"
| "invoke rt this (DeleteDesignDocument dbName docId revision) =
     deleteDesignDocument this dbName docId revision"
| "invoke rt this (GetDocumentView dbName docId viewName options) =
     getDocumentView rt this dbName docId viewName options"
| "invoke rt this (GetIndexes dbName) = getIndexes this dbName"
| "invoke rt this (CreateIndex dbName idx name) = createIndex this dbName idx name"
| "invoke rt this (DeleteIndex dbName docId indexName) = deleteIndex this dbName docId indexName"

text \<open>The database name argument of a call, for the methods that take one.\<close>

fun dbName_of :: "operation \<Rightarrow> string option option" where
  "dbName_of GetInfo = None"
| "dbName_of GetDatabases = None"
| "dbName_of (GetDatabase dbName) = Some dbName"
| "dbName_of (CreateDatabase dbName) = Some dbName"
| "dbName_of (CheckDatabaseExists dbName) = Some dbName"
| "dbName_of (DeleteDatabase dbName) = Some dbName"
| "dbName_of (UpdateDatabaseSecurity dbName admins members) = Some dbName"
| "dbName_of (CreateUser user pass roles) = None"
| "dbName_of (FindDocuments dbName findOptions) = Some dbName"
| "dbName_of (GetDocuments dbName options) = Some dbName"
| "dbName_of (GetDocument docId dbName options) = Some dbName"
| "dbName_of (CheckDocumentExists dbName docId) = Some dbName"
| "dbName_of (CopyDocument docId newDocId dbName) = Some dbName"
| "dbName_of (CreateDocument doc docId dbName) = Some dbName"
| "dbName_of (CreateDocuments docs dbName) = Some dbName"
| "dbName_of (DeleteDocument dbName docId revision) = Some dbName"
| "dbName_of (GetUuids n) = None"
| "dbName_of (GetDesignDocument dbName docId options) = Some dbName"
| "dbName_of (GetDesignDocumentInfo dbName docId) = Some dbName"
| "dbName_of (CreateDesignDocument dbName doc docId) = Some dbName"
| "dbName_of (DeleteDesignDocument dbName docId revision) = Some dbName"
| "dbName_of (GetDocumentView dbName docId viewName options) = Some dbName"
| "dbName_of (GetIndexes dbName) = Some dbName"
| "dbName_of (CreateIndex dbName idx name) = Some dbName"
| "dbName_of (DeleteIndex dbName docId indexName) = Some dbName"

text \<open>The query options argument of a call, for the four methods that take one.\<close>

fun query_options_of :: "operation \<Rightarrow> jsobject option option" where
  "query_options_of (GetDocuments dbName options) = Some options"
| "query_options_of (GetDocument docId dbName options) = Some options"
| "query_options_of (GetDesignDocument dbName docId options) = Some options"
| "query_options_of (GetDocumentView dbName docId viewName options) = Some options"
| "query_options_of operation = None"

text \<open>The argument \<open>{}\<close> that the constructors default to.\<close>

definition empty_connection :: connection where
  "empty_connection =
     \<lparr>opt_host = None, opt_port = None, opt_auth = None, opt_logging = None,
      opt_defaultDatabase = None\<rparr>"

section \<open>Properties\<close>

subsection \<open>Auxiliary facts\<close>

lemma num_str_5984: "num_str rt (Num 5984) = ''5984''"
  by (simp add: num_str_def digits.simps digit_def)

lemma with_db_none:
  "(dbName = None \<or> dbName = Some []) \<Longrightarrow>
   (defaultDatabase this = None \<or> defaultDatabase this = Some []) \<Longrightarrow>
   with_db this dbName k = PromiseReject no_db"
  by (auto simp: with_db_def js_or_def)

lemma with_db_some:
  "js_or dbName (defaultDatabase this) = Some n \<Longrightarrow> n \<noteq> [] \<Longrightarrow>
   with_db this dbName k = k n"
  by (simp add: with_db_def)

lemma default_client:
  "host (CouchDb empty_connection) = ''http://127.0.0.1''"
  "port (CouchDb empty_connection) = Num 5984"
  "defaultDatabase (CouchDb empty_connection) = None"
  by (simp_all add: CouchDb_def empty_connection_def js_or_str_def js_or_num_def)

lemma first_admin_root:
  "getOptions_uri rt (fst (CouchDBAdmin_first empty_connection)) (Some []) =
     ''http://127.0.0.1:5984/''"
  by (simp add: getOptions_uri_def CouchDBAdmin_first_def empty_connection_def js_or_str_def
      num_str_5984)

text \<open>
  A headers object without a \<open>length\<close> property is not merged: the transport gets the two
  baseline headers only.
\<close>

lemma requestOptions_headers_without_length:
  "map_of hs ''length'' = None \<Longrightarrow>
   req_headers (requestOptions rt this (options\<lparr>headers := Some hs\<rparr>)) =
     req_headers (defaultRequestOptions rt this)"
  by (simp add: requestOptions_def Let_def)

text \<open>
  No method of \<open>CouchDb\<close> passes a headers object with a \<open>length\<close> property, so every
  request of every method goes out with the baseline headers only.
\<close>

lemma with_db_cases:
  "with_db this dbName k = c \<Longrightarrow>
   c = PromiseReject no_db \<or> (\<exists>n. n \<noteq> [] \<and> c = k n)"
  by (auto simp: with_db_def split: option.splits if_splits)

lemma invoke_headers_no_length:
  assumes "invoke rt this operation = Request options \<or>
           invoke rt this operation = Exists options"
  shows "map_option (\<lambda>hs. map_of hs ''length'') (headers options) \<in> {None, Some None}"
  using assms
  by (cases operation)
     (auto simp: getInfo_def getDatabases_def getDatabase_def createDatabase_def
        checkDatabaseExists_def deleteDatabase_def updateDatabaseSecurity_def createUser_def
        findDocuments_def getDocuments_def getDocument_def checkDocumentExists_def
        copyDocument_def createDocument_def createDocuments_def deleteDocument_def
        getUuids_def getDesignDocument_def getDesignDocumentInfo_def createDesignDocument_def
        deleteDesignDocument_def getDocumentView_def getIndexes_def createIndex_def
        deleteIndex_def
        split: option.splits sum.splits if_splits dest!: with_db_cases)

lemma invoke_baseline_headers:
  assumes "invoke rt this operation = Request options \<or>
           invoke rt this operation = Exists options"
  shows "req_headers (requestOptions rt this options) =
           [(''user-agent'', JStr ''couchdb-promises''), (''accept'', JStr ''application/json'')]"
  using invoke_headers_no_length [OF assms]
  by (auto simp: requestOptions_def defaultRequestOptions_def Let_def split: option.splits)

text \<open>A descriptor without a path is sent to \<open>/undefined\<close>.\<close>

lemma requestOptions_uri_without_path:
  "path options = None \<Longrightarrow>
   req_uri (requestOptions rt this options) =
     host this @ '':'' @ num_str rt (port this) @ ''/undefined''"
  by (simp add: requestOptions_def defaultRequestOptions_def Let_def split: option.splits)

text \<open>
  \<open>Object.assign\<close> and the serialization loop of \<open>CouchDBAdmin.createQueryString\<close> on
  objects (keys distinct): the copy is the object itself, and the loop maps the JSON text
  over the values of the listed keys.
\<close>

lemma update_fresh: "k \<notin> fst ` set al \<Longrightarrow> AList.update k v al = al @ [(k, v)]"
  by (induction al) auto

lemma Object_assign_distinct:
  "distinct (map fst (xs @ q)) \<Longrightarrow> Object_assign xs q = xs @ q"
  unfolding Object_assign_def
proof (induction q arbitrary: xs)
  case Nil
  then show ?case by simp
next
  case (Cons a q)
  obtain k v where a: "a = (k, v)" by (cases a)
  from Cons.prems have "k \<notin> fst ` set xs" by (auto simp: a)
  then have u: "AList.update k v xs = xs @ [(k, v)]" by (rule update_fresh)
  from Cons.prems have "distinct (map fst ((xs @ [(k, v)]) @ q))" by (simp add: a)
  from Cons.IH [OF this] show ?case by (simp add: a u)
qed

lemma serialize_step:
  "distinct (map fst obj) \<Longrightarrow>
   (case map_of obj key of Some v \<Rightarrow> AList.update key (f v) obj | None \<Rightarrow> obj) =
   map (\<lambda>(k, x). if k = key then (k, f x) else (k, x)) obj"
proof (induction obj)
  case Nil
  then show ?case by simp
next
  case (Cons a obj)
  obtain k x where a: "a = (k, x)" by (cases a)
  show ?case
  proof (cases "k = key")
    case True
    with Cons.prems have "key \<notin> fst ` set obj" by (simp add: a)
    then have "map (\<lambda>(k, x). if k = key then (k, f x) else (k, x)) obj = obj"
      by (intro map_idI) (auto simp: rev_image_eqI)
    with True show ?thesis by (simp add: a)
  next
    case False
    from Cons.prems have "distinct (map fst obj)" by simp
    from Cons.IH [OF this] False show ?thesis
      by (simp add: a split: option.splits)
  qed
qed

lemma serialize_step_distinct:
  "distinct (map fst obj) \<Longrightarrow>
   distinct (map fst (map (\<lambda>(k, x). if k = key then (k, f x) else (k, x)) obj))"
  by (simp add: comp_def case_prod_unfold if_distrib [of fst] cong: if_cong)

lemma fold_serialize:
  "distinct keys \<Longrightarrow> distinct (map fst obj) \<Longrightarrow>
   fold (\<lambda>key obj.
           case map_of obj key of Some v \<Rightarrow> AList.update key (f v) obj | None \<Rightarrow> obj)
     keys obj =
   map (\<lambda>(k, x). if k \<in> set keys then (k, f x) else (k, x)) obj"
proof (induction keys arbitrary: obj)
  case Nil
  then show ?case by simp
next
  case (Cons key keys)
  let ?g = "\<lambda>(k, x). if k = key then (k, f x) else (k, x)"
  have d: "distinct (map fst (map ?g obj))"
    using Cons.prems(2) by (rule serialize_step_distinct)
  from Cons.prems(1) have k: "key \<notin> set keys" and dk: "distinct keys"
    by simp_all
  have "fold (\<lambda>key obj.
           case map_of obj key of Some v \<Rightarrow> AList.update key (f v) obj | None \<Rightarrow> obj)
          (key # keys) obj =
        map (\<lambda>(k, x). if k \<in> set keys then (k, f x) else (k, x)) (map ?g obj)"
    using Cons.IH [OF dk d] by (simp add: serialize_step [OF Cons.prems(2)])
  also have "\<dots> = map (\<lambda>(k, x). if k \<in> set (key # keys) then (k, f x) else (k, x)) obj"
    using k by auto
  finally show ?case .
qed

text \<open>
  \<open>CouchDBAdmin.createQueryString\<close> serializes the values of \<open>key\<close>, \<open>keys\<close>,
  \<open>startkey\<close> and \<open>endkey\<close>, and no other value.
\<close>

lemma CouchDBAdmin_createQueryString_serializes:
  assumes "distinct (map fst q)"
  shows "CouchDBAdmin_createQueryString rt (Some q) =
     (if q = [] then []
      else ''?'' @ stringify rt
             (map (\<lambda>(k, v). if k \<in> set QUERY_KEYS_JSON then (k, JSON_stringify rt v)
                            else (k, v)) q))"
proof -
  have 0: "Object_assign [] q = q"
    using Object_assign_distinct [of "[]" q] assms by simp
  have 1: "distinct QUERY_KEYS_JSON"
    by (simp add: QUERY_KEYS_JSON_def)
  show ?thesis
    by (simp add: CouchDBAdmin_createQueryString_def 0 fold_serialize [OF 1 assms] Let_def)
qed

text \<open>\<open>CouchDb.createQueryString\<close> hands the object to \<open>stringify\<close> as it is.\<close>

lemma createQueryString_unserialized:
  "createQueryString rt (Some q) = Inr (if q = [] then [] else ''?'' @ stringify rt q)"
  by (simp add: createQueryString_def)

subsection \<open>Headers of the dispatched request\<close>

text \<open>
  C1. The claim: the dispatched headers are the baseline headers merged with the headers of
  the descriptor, so that \<open>copyDocument\<close>'s \<open>Destination\<close> header is on the outgoing
  request. What the code does for \<open>copyDocument({docId: 'a', newDocId: 'b', dbName:
  'testDB'})\<close>, on any client: the descriptor carries \<open>Destination: 'b'\<close>, and the request
  handed to the transport carries \<open>user-agent\<close> and \<open>accept\<close> only, since the merge is
  guarded by \<open>options.headers.length > 0\<close> and the headers object has no \<open>length\<close>.
  The same holds for the \<open>content-type\<close> header of \<open>createDocument\<close> with a document id.
\<close>

theorem copyDocument_destination_header_dropped:
  "(\<exists>options. copyDocument this ''a'' ''b'' (Some ''testDB'') = Request options
      \<and> headers options = Some [(''Destination'', JStr ''b'')]
      \<and> req_headers (requestOptions rt this options) =
           [(''user-agent'', JStr ''couchdb-promises''), (''accept'', JStr ''application/json'')]
      \<and> map_of (req_headers (requestOptions rt this options)) ''Destination'' = None)
   \<and> (\<exists>options. createDocument this doc (Some ''a'') (Some ''testDB'') = Request options
      \<and> headers options = Some [(''content-type'', JStr ''application/json'')]
      \<and> req_headers (requestOptions rt this options) =
           [(''user-agent'', JStr ''couchdb-promises''), (''accept'', JStr ''application/json'')]
      \<and> map_of (req_headers (requestOptions rt this options)) ''content-type'' = None)"
  by (simp add: copyDocument_def createDocument_def with_db_def js_or_def requestOptions_def
      defaultRequestOptions_def Let_def)

subsection \<open>Query strings\<close>

text \<open>
  C2. The claim: a \<open>keys\<close> entry (and \<open>key\<close>, \<open>startkey\<close>, \<open>endkey\<close>) is JSON-serialized
  before the query string is built. For the query object \<open>{keys: ['a', 'b']}\<close>,
  \<open>CouchDb.createQueryString\<close> hands the array itself to \<open>querystring.stringify\<close>, while
  \<open>CouchDBAdmin.createQueryString\<close> hands it the JSON text of the array; likewise for
  the string of \<open>{key: 'abc', limit: 5}\<close>.
\<close>

theorem createQueryString_keys_not_serialized:
  "createQueryString rt (Some [(''keys'', JArr [JStr ''a'', JStr ''b''])]) =
     Inr (''?'' @ stringify rt [(''keys'', JArr [JStr ''a'', JStr ''b''])])
   \<and> CouchDBAdmin_createQueryString rt (Some [(''keys'', JArr [JStr ''a'', JStr ''b''])]) =
     ''?'' @ stringify rt [(''keys'', JSON_stringify rt (JArr [JStr ''a'', JStr ''b'']))]
   \<and> createQueryString rt (Some [(''key'', JStr ''abc''), (''limit'', JNum 5)]) =
     Inr (''?'' @ stringify rt [(''key'', JStr ''abc''), (''limit'', JNum 5)])
   \<and> CouchDBAdmin_createQueryString rt (Some [(''key'', JStr ''abc''), (''limit'', JNum 5)]) =
     ''?'' @ stringify rt [(''key'', JSON_stringify rt (JStr ''abc'')), (''limit'', JNum 5)]"
  by (simp add: createQueryString_def CouchDBAdmin_createQueryString_def Object_assign_def
      QUERY_KEYS_JSON_def Let_def)

subsection \<open>Status messages\<close>

text \<open>
  C3. The claim: the message of status \<open>S\<close> is \<open>T2[S]\<close> when \<open>S\<close> is a key of the call's
  table \<open>T2\<close>, else \<open>T1[S]\<close> when \<open>S\<close> is a key of the built-in table \<open>T1\<close>, else
  \<open>unknown status\<close>. It fails where the message found is the empty string: with
  \<open>T2 = {200: ''}\<close> the message of 200 is \<open>unknown status\<close>, not \<open>T2[200]\<close>.
\<close>

theorem statusCode_empty_message_counterexample:
  "[200 \<mapsto> []] (200 :: int) = Some ([] :: string) \<and>
   statusCode Map.empty (Some [200 \<mapsto> []]) (Some 200) = ''unknown status''"
  by (simp add: statusCode_def)

text \<open>
  C3, amended: the message is the entry of \<open>T2\<close> when \<open>S\<close> is a key of \<open>T2\<close>, else the
  entry of \<open>T1\<close> when \<open>S\<close> is a key of \<open>T1\<close>; and it is \<open>unknown status\<close> when there is no
  entry or the entry is the empty string.
\<close>

theorem statusCode_resolution:
  "statusCode T1 (Some T2) (Some S) =
     (case T2 S of
        Some m \<Rightarrow> if m = [] then ''unknown status'' else m
      | None \<Rightarrow>
          (case T1 S of
             Some m \<Rightarrow> if m = [] then ''unknown status'' else m
           | None \<Rightarrow> ''unknown status''))"
  by (simp add: statusCode_def map_add_def split: option.splits)

subsection \<open>Existence checks\<close>

text \<open>
  C4. For \<open>checkDatabaseExists\<close> and \<open>checkDocumentExists\<close> with a database name (the
  argument, or the default), the call is a \<open>HEAD\<close> request, and its promise is settled
  once: resolved with \<open>false\<close> when the transport rejects with status 404, resolved with
  \<open>true\<close> when the transport answers with status 200, and rejected with the normalized
  error of \<open>request\<close> when the transport rejects with anything else.
\<close>

theorem existence_check_settlement:
  assumes "js_or dbName (defaultDatabase this) = Some n" and "n \<noteq> []"
    and "c = checkDatabaseExists this dbName \<or> c = checkDocumentExists this dbName docId"
  shows "\<exists>options. c = Exists options \<and> method options = Some HEAD \<and>
     (\<forall>rt t0 t1 e r.
        (err_statusCode e = Some 404 \<longrightarrow>
           map_sum id settlements (perform rt this t0 (RejectsWith e) t1 c) =
             Inr [Resolve (JBool False)]) \<and>
        (res_statusCode r = 200 \<longrightarrow>
           map_sum id settlements (perform rt this t0 (Fulfils r) t1 c) =
             Inr [Resolve (JBool True)]) \<and>
        (err_statusCode e \<noteq> Some 404 \<longrightarrow>
           map_sum id settlements (perform rt this t0 (RejectsWith e) t1 c) =
             Inr [Reject (Normalized
               \<lparr>error = e,
                status = (case err_statusCode e of
                            None \<Rightarrow> 500 | Some s \<Rightarrow> if s = 0 then 500 else s),
                message = statusCode (STATUS_CODES rt) (statusCodes options) (err_statusCode e),
                duration = t1 - t0\<rparr>)]))"
  using assms(3)
proof
  assume c: "c = checkDatabaseExists this dbName"
  show ?thesis
    unfolding c checkDatabaseExists_def with_db_some [OF assms(1,2)]
    by (simp add: perform_def request_def settlements_def js_or_code_def)
next
  assume c: "c = checkDocumentExists this dbName docId"
  show ?thesis
    unfolding c checkDocumentExists_def with_db_some [OF assms(1,2)]
    by (simp add: perform_def request_def settlements_def js_or_code_def)
qed

theorem existence_check_settlement_witness:
  "\<forall>rt.
     map_sum id settlements
       (perform rt (CouchDb empty_connection) 10
          (RejectsWith \<lparr>err_name = ''StatusCodeError'', err_statusCode = Some 404\<rparr>) 25
          (checkDatabaseExists (CouchDb empty_connection) (Some ''testDB''))) =
       Inr [Resolve (JBool False)] \<and>
     map_sum id settlements
       (perform rt (CouchDb empty_connection) 10
          (Fulfils \<lparr>res_statusCode = 200, res_body = JUndefined\<rparr>) 25
          (checkDatabaseExists (CouchDb empty_connection) (Some ''testDB''))) =
       Inr [Resolve (JBool True)] \<and>
     (\<exists>m. map_sum id settlements
       (perform rt (CouchDb empty_connection) 10
          (RejectsWith \<lparr>err_name = ''StatusCodeError'', err_statusCode = Some 500\<rparr>) 25
          (checkDatabaseExists (CouchDb empty_connection) (Some ''testDB''))) =
       Inr [Reject (Normalized
              \<lparr>error = \<lparr>err_name = ''StatusCodeError'', err_statusCode = Some 500\<rparr>,
               status = 500, message = m, duration = 15\<rparr>)])"
proof -
  let ?cl = "CouchDb empty_connection"
  let ?c = "checkDatabaseExists ?cl (Some ''testDB'')"
  have 1: "js_or (Some ''testDB'') (defaultDatabase ?cl) = Some ''testDB''"
    by (simp add: js_or_def)
  have 2: "''testDB'' \<noteq> []"
    by simp
  have 3: "?c = checkDatabaseExists ?cl (Some ''testDB'') \<or>
           ?c = checkDocumentExists ?cl (Some ''testDB'') []"
    by simp
  from existence_check_settlement [OF 1 2 3]
  obtain options :: request_options where *: "\<forall>rt t0 t1 e r.
        (err_statusCode e = Some 404 \<longrightarrow>
           map_sum id settlements (perform rt ?cl t0 (RejectsWith e) t1 ?c) =
             Inr [Resolve (JBool False)]) \<and>
        (res_statusCode r = 200 \<longrightarrow>
           map_sum id settlements (perform rt ?cl t0 (Fulfils r) t1 ?c) =
             Inr [Resolve (JBool True)]) \<and>
        (err_statusCode e \<noteq> Some 404 \<longrightarrow>
           map_sum id settlements (perform rt ?cl t0 (RejectsWith e) t1 ?c) =
             Inr [Reject (Normalized
               \<lparr>error = e,
                status = (case err_statusCode e of
                            None \<Rightarrow> 500 | Some s \<Rightarrow> if s = 0 then 500 else s),
                message = statusCode (STATUS_CODES rt) (statusCodes options) (err_statusCode e),
                duration = t1 - t0\<rparr>)])"
    by blast
  show ?thesis
  proof (intro allI conjI)
    fix rt
    show "map_sum id settlements
       (perform rt ?cl 10
          (RejectsWith \<lparr>err_name = ''StatusCodeError'', err_statusCode = Some 404\<rparr>) 25 ?c) =
       Inr [Resolve (JBool False)]"
      using * by simp
    show "map_sum id settlements
       (perform rt ?cl 10 (Fulfils \<lparr>res_statusCode = 200, res_body = JUndefined\<rparr>) 25 ?c) =
       Inr [Resolve (JBool True)]"
      using * by simp
    have "map_sum id settlements
       (perform rt ?cl 10
          (RejectsWith \<lparr>err_name = ''StatusCodeError'', err_statusCode = Some 500\<rparr>) 25 ?c) =
       Inr [Reject (Normalized
              \<lparr>error = \<lparr>err_name = ''StatusCodeError'', err_statusCode = Some 500\<rparr>,
               status = 500,
               message = statusCode (STATUS_CODES rt) (statusCodes options) (Some 500),
               duration = 15\<rparr>)]"
      using * by simp
    then show "\<exists>m. map_sum id settlements
       (perform rt ?cl 10
          (RejectsWith \<lparr>err_name = ''StatusCodeError'', err_statusCode = Some 500\<rparr>) 25 ?c) =
       Inr [Reject (Normalized
              \<lparr>error = \<lparr>err_name = ''StatusCodeError'', err_statusCode = Some 500\<rparr>,
               status = 500, message = m, duration = 15\<rparr>)]"
      by blast
  qed
qed

subsection \<open>Calls without a database name\<close>

text \<open>
  C5. A method of \<open>CouchDb\<close> that takes a database name, called with no name (or the
  empty string) on a client with no default database (or the empty string), returns
  \<open>Promise.reject('No DB specified...')\<close>: the only event of the call is that rejection,
  and nothing is handed to the transport.
\<close>

theorem no_database_rejects_without_request:
  assumes "dbName_of operation = Some dbName"
    and "dbName = None \<or> dbName = Some []"
    and "defaultDatabase this = None \<or> defaultDatabase this = Some []"
  shows "invoke rt this operation = PromiseReject no_db \<and>
         perform rt this t0 tr t1 (invoke rt this operation) = Inr [Reject (Message no_db)] \<and>
         map_sum id dispatches (perform rt this t0 tr t1 (invoke rt this operation)) = Inr []"
proof -
  have "invoke rt this operation = PromiseReject no_db"
    using assms
    by (cases operation)
       (simp_all add: getDatabase_def createDatabase_def checkDatabaseExists_def
          deleteDatabase_def updateDatabaseSecurity_def findDocuments_def getDocuments_def
          getDocument_def checkDocumentExists_def copyDocument_def createDocument_def
          createDocuments_def deleteDocument_def getDesignDocument_def
          getDesignDocumentInfo_def createDesignDocument_def deleteDesignDocument_def
          getDocumentView_def getIndexes_def createIndex_def deleteIndex_def with_db_none)
  then show ?thesis
    by (simp add: perform_def dispatches_def)
qed

theorem no_database_rejects_without_request_witness:
  "\<forall>rt tr.
     invoke rt (CouchDb empty_connection) (CreateDocument (JObj []) None None) =
       PromiseReject no_db \<and>
     perform rt (CouchDb empty_connection) 0 tr 1
       (invoke rt (CouchDb empty_connection) (CreateDocument (JObj []) None None)) =
       Inr [Reject (Message no_db)] \<and>
     map_sum id dispatches
       (perform rt (CouchDb empty_connection) 0 tr 1
          (invoke rt (CouchDb empty_connection) (CreateDocument (JObj []) None None))) =
       Inr []"
  using no_database_rejects_without_request
    [where operation = "CreateDocument (JObj []) None None" and dbName = None
       and this = "CouchDb empty_connection" and ?t0.0 = 0 and ?t1.0 = 1]
  by (simp add: default_client perform_def dispatches_def)

subsection \<open>Database names\<close>

text \<open>
  C6. The claim: every operation called with a database name that violates
  \<open>^[a-z][a-z0-9_$()+/-]*$\<close>, such as \<open>Test\<close>, rejects with a validation error before any
  network call. It fails for every method but \<open>createDatabase\<close>: \<open>getDatabase('Test')\<close> on
  the default client is a request with the path \<open>Test\<close>.
\<close>

theorem getDatabase_invalid_name_counterexample:
  "\<not> db_name_match ''Test'' \<and>
   (\<exists>options. getDatabase (CouchDb empty_connection) (Some ''Test'') = Request options \<and>
      path options = Some ''Test'')"
  by (simp add: getDatabase_def with_db_def js_or_def lower_case_def encodeURIComponent_def
      unreserved_def)

text \<open>
  C6, amended: \<open>createDatabase\<close> of \<open>CouchDb\<close>, called with a non-empty database name (the
  argument, or the default) that violates the pattern, and \<open>createDatabase\<close> of
  \<open>CouchDBAdmin\<close>, called with any name that violates it, return
  \<open>Promise.reject('Invalid DB Name...')\<close>: the only event is that rejection, and nothing is
  handed to the transport.
\<close>

theorem createDatabase_rejects_invalid_name:
  "(js_or dbName (defaultDatabase this) = Some n \<and> n \<noteq> [] \<and> \<not> db_name_match n \<longrightarrow>
      createDatabase this dbName = PromiseReject invalid_db \<and>
      perform rt this t0 tr t1 (createDatabase this dbName) = Inr [Reject (Message invalid_db)])
   \<and> (\<not> db_name_match m \<longrightarrow>
      CouchDBAdmin_createDatabase m = PromiseReject invalid_db \<and>
      perform rt admin t0 tr t1 (CouchDBAdmin_createDatabase m) =
        Inr [Reject (Message invalid_db)])
   \<and> map_sum id dispatches (perform rt admin t0 tr t1 (PromiseReject invalid_db)) = Inr []"
  by (simp add: createDatabase_def with_db_some CouchDBAdmin_createDatabase_def perform_def
      dispatches_def)

theorem createDatabase_rejects_invalid_name_witness:
  "\<forall>rt tr.
     perform rt (CouchDb empty_connection) 0 tr 1
       (createDatabase (CouchDb empty_connection) (Some ''Test'')) =
       Inr [Reject (Message invalid_db)] \<and>
     perform rt (fst (CouchDBAdmin empty_connection)) 0 tr 1
       (CouchDBAdmin_createDatabase ''Test'') = Inr [Reject (Message invalid_db)]"
  using createDatabase_rejects_invalid_name
    [where dbName = "Some ''Test''" and this = "CouchDb empty_connection" and n = "''Test''"
       and m = "''Test''" and admin = "fst (CouchDBAdmin empty_connection)"
       and ?t0.0 = 0 and ?t1.0 = 1]
  by (simp add: js_or_def lower_case_def perform_def)

text \<open>No other method of \<open>CouchDb\<close> rejects with that validation error.\<close>

lemma only_createDatabase_validates:
  assumes "invoke rt this operation = PromiseReject invalid_db"
  shows "\<exists>dbName. operation = CreateDatabase dbName"
  using assms
  by (cases operation)
     (auto simp: getInfo_def getDatabases_def getDatabase_def checkDatabaseExists_def
        deleteDatabase_def updateDatabaseSecurity_def createUser_def findDocuments_def
        getDocuments_def getDocument_def checkDocumentExists_def copyDocument_def
        createDocument_def createDocuments_def deleteDocument_def getUuids_def
        getDesignDocument_def getDesignDocumentInfo_def createDesignDocument_def
        deleteDesignDocument_def getDocumentView_def getIndexes_def createIndex_def
        deleteIndex_def no_db_def invalid_db_def
        split: option.splits sum.splits if_splits dest!: with_db_cases)

subsection \<open>The request target\<close>

text \<open>
  C7. The claim: a descriptor without a path, as \<open>getInfo\<close>'s, gives the server root as
  the request target. What the code does for \<open>getInfo()\<close> on the default client: the
  descriptor has no path, and the target is \<open>http://127.0.0.1:5984/undefined\<close>. The
  \<open>getInfo\<close> of the first \<open>CouchDBAdmin\<close>, through \<open>getOptions('')\<close>, asks for
  \<open>http://127.0.0.1:5984/\<close>.
\<close>

theorem getInfo_target_undefined:
  "(\<exists>options. getInfo = Request options \<and> path options = None \<and>
      req_uri (requestOptions rt (CouchDb empty_connection) options) =
        ''http://127.0.0.1:5984/undefined'')
   \<and> getOptions_uri rt (fst (CouchDBAdmin_first empty_connection)) (Some []) =
        ''http://127.0.0.1:5984/''"
  by (simp add: getInfo_def requestOptions_def defaultRequestOptions_def Let_def
      default_client num_str_5984 first_admin_root)

subsection \<open>The configured port\<close>



subsection \<open>Settlement of a request\<close>

text \<open>
  What \<open>request\<close> does for each behaviour of the transport: one transport call, and the
  calls of \<open>resolve\<close> and \<open>reject\<close> that follow it.
\<close>

lemma request_dispatches_once:
  "dispatches (request rt this options t0 tr t1) = [Dispatch (requestOptions rt this options)]"
  by (simp add: request_def dispatches_def split: transport.splits)

lemma request_settlements:
  "settlements (request rt this options t0 tr t1) =
     (case tr of
        Fulfils r \<Rightarrow> [Resolve (res_body r)]
      | RejectsWith e \<Rightarrow>
          [Reject (Normalized
            \<lparr>error = e,
             status = (case err_statusCode e of
                         None \<Rightarrow> 500 | Some s \<Rightarrow> if s = 0 then 500 else s),
             message = statusCode (STATUS_CODES rt) (statusCodes options) (err_statusCode e),
             duration = t1 - t0\<rparr>)]
      | RejectsNullish \<Rightarrow> []
      | ThrowsSync x \<Rightarrow> [Reject (Thrown x)])"
  by (simp add: request_def settlements_def js_or_code_def split: transport.splits)

text \<open>
  C9. The claim: a call of \<open>request\<close> settles exactly once, resolving with the body or
  rejecting with the normalized error \<open>{error, status, message, duration}\<close>, never
  neither, also when the transport fails synchronously. What the code does, for any client
  and any descriptor: when the transport call throws, the promise is rejected with the
  thrown value as it is, not with a normalized error; and when the transport rejects with
  \<open>undefined\<close> or \<open>null\<close>, the promise is never settled.
\<close>

theorem request_raw_rejection_or_unsettled:
  "settlements (request rt this options t0 (ThrowsSync x) t1) = [Reject (Thrown x)]
   \<and> settlements (request rt this options t0 RejectsNullish t1) = []
   \<and> map_sum id settlements
         (perform rt (CouchDb empty_connection) t0 (ThrowsSync ''boom'') t1 getDatabases) =
       Inr [Reject (Thrown ''boom'')]
   \<and> map_sum id settlements
         (perform rt (CouchDb empty_connection) t0 RejectsNullish t1 getDatabases) = Inr []"
  by (simp add: request_def settlements_def perform_def getDatabases_def)

subsection \<open>Omitted query options\<close>

text \<open>
  C10. The claim: \<open>getDocuments\<close>, \<open>getDocument\<close>, \<open>getDesignDocument\<close> and
  \<open>getDocumentView\<close>, called without the query options, throw a \<open>TypeError\<close> instead of
  returning a promise. It fails when there is no database name either: the check of the
  name comes first, and \<open>getDocuments({})\<close> on the default client returns the rejected
  promise.
\<close>

theorem omitted_query_options_counterexample:
  "\<forall>rt. query_options_of (GetDocuments None None) = Some None \<and>
     invoke rt (CouchDb empty_connection) (GetDocuments None None) = PromiseReject no_db"
  by (simp add: getDocuments_def with_db_none default_client)

text \<open>
  C10, amended: called with a database name (the argument, or the default) and without the
  query options, each of the four methods throws a \<open>TypeError\<close> and returns no promise;
  and \<open>createQueryString\<close> gives the empty string for the empty object only.
\<close>

theorem omitted_query_options_throw:
  "(query_options_of operation = Some None \<and> dbName_of operation = Some dbName \<and>
    js_or dbName (defaultDatabase this) = Some n \<and> n \<noteq> [] \<longrightarrow>
      invoke rt this operation = Throw TypeError \<and>
      perform rt this t0 tr t1 (invoke rt this operation) = Inl TypeError)
   \<and> (createQueryString rt q = Inr [] \<longleftrightarrow> q = Some [])"
proof (intro conjI impI)
  assume a: "query_options_of operation = Some None \<and> dbName_of operation = Some dbName \<and>
    js_or dbName (defaultDatabase this) = Some n \<and> n \<noteq> []"
  then show "invoke rt this operation = Throw TypeError"
    by (cases operation)
       (simp_all add: getDocuments_def getDocument_def getDesignDocument_def
          getDocumentView_def with_db_some createQueryString_def)
  then show "perform rt this t0 tr t1 (invoke rt this operation) = Inl TypeError"
    by (simp add: perform_def)
next
  show "createQueryString rt q = Inr [] \<longleftrightarrow> q = Some []"
    by (cases q) (auto simp: createQueryString_def)
qed

theorem omitted_query_options_throw_witness:
  "\<forall>rt tr.
     invoke rt (CouchDb empty_connection) (GetDocuments (Some ''testDB'') None) =
       Throw TypeError \<and>
     perform rt (CouchDb empty_connection) 0 tr 1
       (invoke rt (CouchDb empty_connection) (GetDocuments (Some ''testDB'') None)) =
       Inl TypeError \<and>
     createQueryString rt (Some []) = Inr []"
  using omitted_query_options_throw
    [where operation = "GetDocuments (Some ''testDB'') None" and dbName = "Some ''testDB''"
       and this = "CouchDb empty_connection" and n = "''testDB''" and q = "Some []"
       and ?t0.0 = 0 and ?t1.0 = 1]
  by (simp add: js_or_def perform_def)

end
